theory Spec2Isabelle
  imports Main "HOL-Library.Word"
begin

unbundle bit_operations_syntax

section \<open>The world tmpssh.py runs in\<close>

text \<open>
  \<^verbatim>\<open>tmpssh.py\<close> is a script of side effects: it reads and writes files, changes the
  process umask, performs HTTP requests, runs \<^verbatim>\<open>ssh-keygen\<close> and finally replaces
  itself by \<^verbatim>\<open>sshd\<close>.  The embedding threads an explicit \<open>world\<close> through every
  function and returns every Python exception as a value.

  A path is the string Python would print for it, a file holds bytes, and text and bytes
  are both \<open>string\<close> (the text-mode write of \<^verbatim>\<open>get_and_save_url\<close> stores the
  characters it is given).  Permission bits are a word, as \<^verbatim>\<open>mode_t\<close> is.
  Permission denials, full disks and signals are outside the model.
\<close>

type_synonym path = string
type_synonym mode = "32 word"

datatype node = File mode string | Dir mode

type_synonym filesystem = "path \<rightharpoonup> node"

text \<open>
  The list \<^verbatim>\<open>sources\<close> holds Python values of two types: the values of \<^verbatim>\<open>-f\<close> are
  \<^verbatim>\<open>str\<close> (the parser declares no type for them), the cache files are \<^verbatim>\<open>Path\<close>
  objects.  Both print as a string with \<^verbatim>\<open>str()\<close>; only a \<^verbatim>\<open>Path\<close> has the
  methods of \<^verbatim>\<open>pathlib\<close>.
\<close>

datatype source = Str string | PosixPath path

definition str :: "source \<Rightarrow> string" where
  "str x = (case x of Str s \<Rightarrow> s | PosixPath p \<Rightarrow> p)"

text \<open>What \<^verbatim>\<open>requests.get\<close> ends in: no response at all, or a final status and body.\<close>

datatype reply = NoResponse | Response nat string

text \<open>The Python exceptions that the modelled calls raise.\<close>

datatype error =
    SystemExit nat string
  | HTTPError nat
  | RequestException
  | FileNotFoundError path
  | IsADirectoryError path
  | FileExistsError path
  | NotADirectoryError path
  | CalledProcessError int
  | KeyError
  | TypeError
  | AttributeError

text \<open>
  Everything the script takes from outside and does not change: the environment
  variable and the home directory read at import time, the hash function of
  \<^verbatim>\<open>hashlib\<close>, the remote servers (the reply may depend on how many requests were
  made before), the stream of random names \<^verbatim>\<open>tempfile\<close> draws from, the effect
  of an external program on the file system (\<open>None\<close>: the program is not found),
  the password database entry of the current uid, and \<^verbatim>\<open>shutil.which\<close>.
\<close>

record env =
  XDG_STATE_HOME :: "path option"
  home :: path
  sha3_256_hexdigest :: "string \<Rightarrow> string"
  remote :: "nat \<Rightarrow> string \<Rightarrow> reply"
  candidate_names :: "nat \<Rightarrow> path"
  program :: "string list \<Rightarrow> filesystem \<Rightarrow> (int \<times> filesystem) option"
  pw_name :: "string option"
  which :: "string \<Rightarrow> path option"

text \<open>
  What the script changes: the file system, the umask, the log of the calls of
  \<^verbatim>\<open>requests.get\<close>, the position in the stream of temporary names, and the log
  of the subprocesses run.
\<close>

record world =
  fs :: filesystem
  umask :: mode
  requests :: "string list"
  drawn :: nat
  subprocesses :: "string list list"

type_synonym 'a result = "(error + 'a) \<times> world"

text \<open>The command line as \<^verbatim>\<open>argparse\<close> delivers it: an option that was not given is
  \<^verbatim>\<open>None\<close>, \<^verbatim>\<open>action="append"\<close> collects a list, and the port is kept as a
  string (the parser declares no type; the default is the integer 2222).  The fields
  are \<^verbatim>\<open>parsed_args.file\<close>, \<^verbatim>\<open>.url\<close>, \<^verbatim>\<open>.github\<close>, \<^verbatim>\<open>.port\<close> and
  \<^verbatim>\<open>.quiet\<close>.\<close>

record args =
  arg_file :: "path list option"
  arg_url :: "string list option"
  arg_github :: "string list option"
  arg_port :: "string option"
  arg_quiet :: bool

section \<open>Paths and file-system primitives\<close>

definition exists :: "world \<Rightarrow> path \<Rightarrow> bool" where
  "exists w p = (fs w p \<noteq> None)"

text \<open>\<^verbatim>\<open>Path / str\<close> for a relative right operand, which is all the script uses.\<close>

definition joinpath :: "path \<Rightarrow> string \<Rightarrow> path" where
  "joinpath p q = (if p = ''/'' then p @ q else if p = ''.'' then q else p @ ''/'' @ q)"

text \<open>The proper ancestors of a path, outermost first, without the root.\<close>

fun ancestors_from :: "string \<Rightarrow> string \<Rightarrow> path list" where
  "ancestors_from acc [] = []"
| "ancestors_from acc (c # cs) =
     (if c = CHR ''/'' \<and> acc \<noteq> [] then [acc] else []) @ ancestors_from (acc @ [c]) cs"

definition ancestors :: "path \<Rightarrow> path list" where
  "ancestors p = ancestors_from [] p"

text \<open>Octal constants of the source: 0o700, 0o022, and the defaults 0o777 (mkdir),
  0o666 (open) and 0o600 (mkstemp) of the library.\<close>

definition o700 :: mode where "o700 = 448"
definition o022 :: mode where "o022 = 18"
definition o777 :: mode where "o777 = 511"
definition o666 :: mode where "o666 = 438"
definition o600 :: mode where "o600 = 384"

text \<open>
  \<^verbatim>\<open>Path.mkdir(mode, exist_ok=True, parents=True)\<close>: an existing directory is left
  alone, an existing file is an error; missing ancestors are made with the default
  mode, the directory itself with \<open>mode\<close>, both masked by the umask.
\<close>

fun make_parents :: "path list \<Rightarrow> world \<Rightarrow> unit result" where
  "make_parents [] w = (Inr (), w)"
| "make_parents (d # ds) w =
     (case fs w d of
        Some (Dir m) \<Rightarrow> make_parents ds w
      | Some (File m b) \<Rightarrow> (Inl (NotADirectoryError d), w)
      | None \<Rightarrow> make_parents ds (w\<lparr>fs := (fs w)(d \<mapsto> Dir (o777 AND NOT (umask w)))\<rparr>))"

definition mkdir :: "mode \<Rightarrow> path \<Rightarrow> world \<Rightarrow> unit result" where
  "mkdir md p w =
     (case fs w p of
        Some (Dir m) \<Rightarrow> (Inr (), w)
      | Some (File m b) \<Rightarrow> (Inl (FileExistsError p), w)
      | None \<Rightarrow>
          (case make_parents (ancestors p) w of
             (Inl e, w1) \<Rightarrow> (Inl e, w1)
           | (Inr u, w1) \<Rightarrow>
               (Inr (), w1\<lparr>fs := (fs w1)(p \<mapsto> Dir (md AND NOT (umask w1)))\<rparr>)))"

text \<open>\<^verbatim>\<open>with file.open('w') as fp: fp.write(content)\<close>: a new file gets mode
  0o666 masked by the umask, an existing one is truncated and keeps its mode.\<close>

definition write_text :: "path \<Rightarrow> string \<Rightarrow> world \<Rightarrow> unit result" where
  "write_text p content w =
     (case fs w p of
        Some (Dir m) \<Rightarrow> (Inl (IsADirectoryError p), w)
      | Some (File m b) \<Rightarrow> (Inr (), w\<lparr>fs := (fs w)(p \<mapsto> File m content)\<rparr>)
      | None \<Rightarrow> (Inr (), w\<lparr>fs := (fs w)(p \<mapsto> File (o666 AND NOT (umask w)) content)\<rparr>))"

text \<open>\<^verbatim>\<open>Path.read_bytes\<close>.\<close>

definition read_bytes :: "path \<Rightarrow> world \<Rightarrow> error + string" where
  "read_bytes p w =
     (case fs w p of
        Some (File m b) \<Rightarrow> Inr b
      | Some (Dir m) \<Rightarrow> Inl (IsADirectoryError p)
      | None \<Rightarrow> Inl (FileNotFoundError p))"

text \<open>A write on the open temporary file appends to it.\<close>

definition append_bytes :: "path \<Rightarrow> string \<Rightarrow> world \<Rightarrow> world" where
  "append_bytes p b w =
     (case fs w p of
        Some (File m old) \<Rightarrow> w\<lparr>fs := (fs w)(p \<mapsto> File m (old @ b))\<rparr>
      | _ \<Rightarrow> w)"

text \<open>
  \<^verbatim>\<open>tempfile.NamedTemporaryFile(delete=False)\<close>: up to \<^verbatim>\<open>TMP_MAX\<close> random names
  are tried, the first that does not exist is created exclusively with mode 0o600.
  \<^verbatim>\<open>TMP_MAX\<close> is \<^verbatim>\<open>os.TMP_MAX\<close>, 238328 on Linux.
\<close>

definition TMP_MAX :: nat where "TMP_MAX = 238328"

fun mkstemp_inner :: "env \<Rightarrow> nat \<Rightarrow> world \<Rightarrow> path result" where
  "mkstemp_inner E 0 w = (Inl (FileExistsError ''No usable temporary file name found''), w)"
| "mkstemp_inner E (Suc n) w =
     (let name = candidate_names E (drawn w); w1 = w\<lparr>drawn := Suc (drawn w)\<rparr>
      in if fs w1 name = None
         then (Inr name, w1\<lparr>fs := (fs w1)(name \<mapsto> File (o600 AND NOT (umask w1)) [])\<rparr>)
         else mkstemp_inner E n w1)"

definition NamedTemporaryFile :: "env \<Rightarrow> world \<Rightarrow> path result" where
  "NamedTemporaryFile E w = mkstemp_inner E TMP_MAX w"

section \<open>The functions of tmpssh.py\<close>

definition GITHUB_KEYS_ENDPOINT :: "string \<Rightarrow> string" where
  "GITHUB_KEYS_ENDPOINT username = ''https://github.com/'' @ username @ ''.keys''"

definition STATE_DIR :: "env \<Rightarrow> path" where
  "STATE_DIR E =
     joinpath (case XDG_STATE_HOME E of
                 Some d \<Rightarrow> d
               | None \<Rightarrow> joinpath (home E) ''.local/state'') ''tmpssh''"

text \<open>\<^verbatim>\<open>Response.raise_for_status\<close> raises for the 4xx and 5xx statuses, and for them only.\<close>

definition raise_for_status :: "nat \<Rightarrow> bool" where
  "raise_for_status status = (400 \<le> status \<and> status < 600)"

definition do_get :: "env \<Rightarrow> string \<Rightarrow> world \<Rightarrow> string result" where
  "do_get E u w =
     (let r = remote E (length (requests w)) u; w1 = w\<lparr>requests := requests w @ [u]\<rparr>
      in case r of
           NoResponse \<Rightarrow> (Inl RequestException, w1)
         | Response status body \<Rightarrow>
             if raise_for_status status then (Inl (HTTPError status), w1) else (Inr body, w1))"

definition ensure_cache_dir :: "env \<Rightarrow> world \<Rightarrow> path result" where
  "ensure_cache_dir E w =
     (let cache_dir = joinpath (STATE_DIR E) ''pubkeys''
      in case mkdir o700 cache_dir w of
           (Inl e, w1) \<Rightarrow> (Inl e, w1)
         | (Inr u, w1) \<Rightarrow> (Inr cache_dir, w1))"

definition get_and_save_url :: "env \<Rightarrow> path \<Rightarrow> string \<Rightarrow> world \<Rightarrow> unit result" where
  "get_and_save_url E f u w =
     (case do_get E u w of
        (Inl e, w1) \<Rightarrow> (Inl e, w1)
      | (Inr content, w1) \<Rightarrow> write_text f content w1)"

text \<open>
  The body of the loop of \<^verbatim>\<open>make_authorized_keys\<close> (lines 63 to 66): the cache
  file of one URL, fetched only when it does not exist yet.
\<close>

definition resolve_url :: "env \<Rightarrow> path \<Rightarrow> string \<Rightarrow> world \<Rightarrow> path result" where
  "resolve_url E cache_dir u w =
     (let cache_file_name = sha3_256_hexdigest E u;
          cache_file_path = joinpath cache_dir cache_file_name
      in if \<not> exists w cache_file_path
         then (case get_and_save_url E cache_file_path u w of
                 (Inl e, w1) \<Rightarrow> (Inl e, w1)
               | (Inr x, w1) \<Rightarrow> (Inr cache_file_path, w1))
         else (Inr cache_file_path, w))"

text \<open>The loop itself (lines 62 to 67), with the list \<^verbatim>\<open>sources\<close> it appends to.\<close>

fun resolve_urls ::
  "env \<Rightarrow> path \<Rightarrow> string list \<Rightarrow> source list \<Rightarrow> world \<Rightarrow> source list result" where
  "resolve_urls E cache_dir [] sources w = (Inr sources, w)"
| "resolve_urls E cache_dir (u # us) sources w =
     (case resolve_url E cache_dir u w of
        (Inl e, w1) \<Rightarrow> (Inl e, w1)
      | (Inr cache_file_path, w1) \<Rightarrow>
          resolve_urls E cache_dir us (sources @ [PosixPath cache_file_path]) w1)"

text \<open>\<^verbatim>\<open>x or []\<close> for an option of \<^verbatim>\<open>argparse\<close>.\<close>

definition or_empty :: "'a list option \<Rightarrow> 'a list" where
  "or_empty x = (case x of None \<Rightarrow> [] | Some xs \<Rightarrow> xs)"

text \<open>The URLs of a command line (lines 55 to 57): the explicit ones, then one per
  GitHub user.\<close>

definition urls_of :: "args \<Rightarrow> string list" where
  "urls_of a = or_empty (arg_url a) @ map GITHUB_KEYS_ENDPOINT (or_empty (arg_github a))"

text \<open>The first half of \<^verbatim>\<open>make_authorized_keys\<close> (lines 53 to 68): the list
  \<^verbatim>\<open>sources\<close> as it stands when \<^verbatim>\<open>n_sources\<close> is taken.\<close>

definition collect_sources :: "env \<Rightarrow> args \<Rightarrow> world \<Rightarrow> source list result" where
  "collect_sources E a w =
     (let sources = map Str (or_empty (arg_file a));
          urls = urls_of a
      in if urls \<noteq> []
         then (case ensure_cache_dir E w of
                 (Inl e, w1) \<Rightarrow> (Inl e, w1)
               | (Inr cache_dir, w1) \<Rightarrow>
                   (let prev_mask = umask w1; w2 = w1\<lparr>umask := o022\<rparr>
                    in case resolve_urls E cache_dir urls sources w2 of
                         (Inl e, w3) \<Rightarrow> (Inl e, w3)
                       | (Inr sources', w3) \<Rightarrow> (Inr sources', w3\<lparr>umask := prev_mask\<rparr>)))
         else (Inr sources, w))"

text \<open>\<^verbatim>\<open>file.read_bytes()\<close> on an element of \<^verbatim>\<open>sources\<close>: a \<^verbatim>\<open>str\<close> has no such
  method, and the call raises \<^verbatim>\<open>AttributeError\<close>.\<close>

definition source_read_bytes :: "source \<Rightarrow> world \<Rightarrow> error + string" where
  "source_read_bytes f w =
     (case f of Str s \<Rightarrow> Inl AttributeError | PosixPath p \<Rightarrow> read_bytes p w)"

text \<open>The loop of \<^verbatim>\<open>merge_files\<close>; a source that cannot be read raises, and the
  temporary file stays as it is then.\<close>

fun write_all :: "path \<Rightarrow> source list \<Rightarrow> world \<Rightarrow> unit result" where
  "write_all tmpfile [] w = (Inr (), w)"
| "write_all tmpfile (f # files) w =
     (case source_read_bytes f w of
        Inl e \<Rightarrow> (Inl e, w)
      | Inr b \<Rightarrow> write_all tmpfile files (append_bytes tmpfile b w))"

definition merge_files :: "env \<Rightarrow> source list \<Rightarrow> world \<Rightarrow> path result" where
  "merge_files E files w =
     (case NamedTemporaryFile E w of
        (Inl e, w1) \<Rightarrow> (Inl e, w1)
      | (Inr tmpfile, w1) \<Rightarrow>
          (case write_all tmpfile files w1 of
             (Inl e, w2) \<Rightarrow> (Inl e, w2)
           | (Inr x, w2) \<Rightarrow> (Inr tmpfile, w2)))"

text \<open>\<^verbatim>\<open>parser.error\<close> prints the usage and the message and exits with status 2.\<close>

definition make_authorized_keys :: "env \<Rightarrow> args \<Rightarrow> world \<Rightarrow> source result" where
  "make_authorized_keys E a w =
     (case collect_sources E a w of
        (Inl e, w1) \<Rightarrow> (Inl e, w1)
      | (Inr sources, w1) \<Rightarrow>
          (let n_sources = length sources
           in if n_sources = 0
              then (let authorized_keys = joinpath (home E) ''.ssh/authorized_keys''
                    in if exists w1 authorized_keys
                       then (Inr (PosixPath authorized_keys), w1)
                       else (Inl (SystemExit 2
                         ''No key sources given, and ~/.ssh/authorized_keys does not exist.''), w1))
              else if n_sources = 1 then (Inr (sources ! 0), w1)
              else (case merge_files E sources w1 of
                      (Inl e, w2) \<Rightarrow> (Inl e, w2)
                    | (Inr tmpfile, w2) \<Rightarrow> (Inr (PosixPath tmpfile), w2))))"

definition NL :: char where "NL = CHR 0x0A"
definition TAB :: char where "TAB = CHR 0x09"

definition generate_sshd_config :: "source \<Rightarrow> string \<Rightarrow> string" where
  "generate_sshd_config authorized_keys user =
     [NL] @ ''AuthorizedKeysFile'' @ [TAB] @ str authorized_keys @ [NL]
          @ ''AllowUsers'' @ [TAB] @ user @ [NL]
          @ ''PubkeyAuthentication'' @ [TAB] @ ''yes'' @ [NL]
          @ ''PasswordAuthentication'' @ [TAB] @ ''no'' @ [NL]
          @ ''PermitRootLogin'' @ [TAB] @ ''no'' @ [NL]"

text \<open>\<^verbatim>\<open>subprocess.run(argv)\<close>: the return code, once the program has run.\<close>

definition subprocess_run :: "env \<Rightarrow> string list \<Rightarrow> world \<Rightarrow> int result" where
  "subprocess_run E argv w =
     (let w1 = w\<lparr>subprocesses := subprocesses w @ [argv]\<rparr>
      in case program E argv (fs w1) of
           None \<Rightarrow> (Inl (FileNotFoundError (case argv of [] \<Rightarrow> [] | c # cs \<Rightarrow> c)), w1)
         | Some (returncode, fs') \<Rightarrow> (Inr returncode, w1\<lparr>fs := fs'\<rparr>))"

definition ensure_host_key :: "env \<Rightarrow> world \<Rightarrow> path result" where
  "ensure_host_key E w =
     (let host_key = joinpath (STATE_DIR E) ''host_ed25519_key''
      in case mkdir o700 (STATE_DIR E) w of
           (Inl e, w1) \<Rightarrow> (Inl e, w1)
         | (Inr x, w1) \<Rightarrow>
             if \<not> exists w1 host_key
             then (case subprocess_run E
                          [''ssh-keygen'', ''-q'', ''-N'', '''', ''-t'', ''ed25519'', ''-f'', host_key] w1 of
                     (Inl e, w2) \<Rightarrow> (Inl e, w2)
                   | (Inr returncode, w2) \<Rightarrow>
                       if returncode \<noteq> 0 then (Inl (CalledProcessError returncode), w2)
                       else (Inr host_key, w2))
             else (Inr host_key, w1))"

text \<open>\<^verbatim>\<open>pwd.getpwuid\<close> raises \<^verbatim>\<open>KeyError\<close> for a uid without an entry.\<close>

definition get_username :: "env \<Rightarrow> error + string" where
  "get_username E = (case pw_name E of None \<Rightarrow> Inl KeyError | Some n \<Rightarrow> Inr n)"

text \<open>
  \<^verbatim>\<open>os.execv(path, argv)\<close> does not return: the outcome of a run that gets there is
  the program and the argument vector that replace the process.  A path that is
  \<^verbatim>\<open>None\<close> is a \<^verbatim>\<open>TypeError\<close>.
\<close>

datatype exec = Exec path "string option list"

definition execv :: "path option \<Rightarrow> string option list \<Rightarrow> world \<Rightarrow> exec result" where
  "execv p argv w = (case p of None \<Rightarrow> (Inl TypeError, w) | Some prog \<Rightarrow> (Inr (Exec prog argv), w))"

text \<open>\<^verbatim>\<open>str(parsed_args.port)\<close>.\<close>

definition str_port :: "string option \<Rightarrow> string" where
  "str_port p = (case p of None \<Rightarrow> ''2222'' | Some s \<Rightarrow> s)"

text \<open>\<^verbatim>\<open>main\<close>, after the command line is parsed.  The two \<^verbatim>\<open>print\<close> calls write to
  the standard output, which is not part of the world.\<close>

definition main :: "env \<Rightarrow> args \<Rightarrow> world \<Rightarrow> exec result" where
  "main E a w =
     (case make_authorized_keys E a w of
        (Inl e, w1) \<Rightarrow> (Inl e, w1)
      | (Inr authorized_keys_path, w1) \<Rightarrow>
          (case get_username E of
             Inl e \<Rightarrow> (Inl e, w1)
           | Inr user \<Rightarrow>
               (let sshd_config = generate_sshd_config authorized_keys_path user
                in case NamedTemporaryFile E w1 of
                     (Inl e, w2) \<Rightarrow> (Inl e, w2)
                   | (Inr sshd_config_file, w2) \<Rightarrow>
                       (case ensure_host_key E (append_bytes sshd_config_file sshd_config w2) of
                          (Inl e, w3) \<Rightarrow> (Inl e, w3)
                        | (Inr host_key, w3) \<Rightarrow>
                            (let sshd = which E ''sshd'';
                                 argv = [sshd, Some ''-Dp'', Some (str_port (arg_port a)),
                                         Some ''-f'', Some sshd_config_file,
                                         Some ''-h'', Some host_key];
                                 argv' = (if \<not> arg_quiet a then argv @ [Some ''-e''] else argv)
                             in execv sshd argv' w3)))))"

section \<open>Vocabulary of the claims\<close>

text \<open>\<^verbatim>\<open>Path.is_file\<close>, \<^verbatim>\<open>Path.is_dir\<close> and the bytes of a regular file.\<close>

definition is_file :: "world \<Rightarrow> path \<Rightarrow> bool" where
  "is_file w p = (case fs w p of Some (File m b) \<Rightarrow> True | _ \<Rightarrow> False)"

definition is_dir :: "world \<Rightarrow> path \<Rightarrow> bool" where
  "is_dir w p = (case fs w p of Some (Dir m) \<Rightarrow> True | _ \<Rightarrow> False)"

definition contents :: "world \<Rightarrow> path \<Rightarrow> string" where
  "contents w p = (case fs w p of Some (File m b) \<Rightarrow> b | _ \<Rightarrow> [])"

text \<open>
  A server configuration is read line by line: the text is cut at every newline, blank
  lines are dropped, and the values of a keyword are what follows the keyword and a
  tab on the lines that start with them.
\<close>

fun split_lines :: "string \<Rightarrow> string list" where
  "split_lines [] = [[]]"
| "split_lines (c # cs) =
     (if c = NL then [] # split_lines cs
      else (case split_lines cs of [] \<Rightarrow> [[c]] | l # ls \<Rightarrow> (c # l) # ls))"

definition directives :: "string \<Rightarrow> string list" where
  "directives cfg = filter (\<lambda>l. l \<noteq> []) (split_lines cfg)"

definition values_of :: "string \<Rightarrow> string \<Rightarrow> string list" where
  "values_of k cfg =
     map (drop (Suc (length k)))
       (filter (\<lambda>l. take (Suc (length k)) l = k @ [TAB]) (directives cfg))"

text \<open>\<^verbatim>\<open>os.path.isabs\<close>.\<close>

definition isabs :: "path \<Rightarrow> bool" where
  "isabs p = (case p of [] \<Rightarrow> False | c # cs \<Rightarrow> c = CHR ''/'')"

text \<open>The success statuses of the specification: a response that is not 2xx is a
  failure.\<close>

definition success_status :: "nat \<Rightarrow> bool" where
  "success_status status = (200 \<le> status \<and> status < 300)"

section \<open>A concrete machine\<close>

text \<open>
  A small environment and world on which the functions are run: a state directory
  \<^verbatim>\<open>/s/tmpssh\<close>, two key files, a server that knows three URLs, a key generator that
  writes the two files of a key pair, and a stand-in for the digest that keeps the
  hexadecimal digits of its argument.
\<close>

definition toy_digest :: "string \<Rightarrow> string" where
  "toy_digest s = map (\<lambda>c. if c \<in> set ''0123456789abcdef'' then c else CHR ''0'') s"

definition example_env :: env where
  "example_env =
     \<lparr>XDG_STATE_HOME = Some ''/s'', home = ''/h'',
      sha3_256_hexdigest = toy_digest,
      remote = (\<lambda>n u. if u = ''https://github.com/alice.keys'' then Response 200 ''keyA''
                       else if u = ''https://a/choices'' then Response 300 ''choices''
                       else if u = ''https://a/gone'' then Response 404 ''not found''
                       else NoResponse),
      candidate_names = (\<lambda>i. ''/tmp/tmp'' @ replicate i (CHR ''x'')),
      program = (\<lambda>argv f. case rev argv of
                   [] \<Rightarrow> None
                 | p # r \<Rightarrow> Some (0, f(p \<mapsto> File 384 ''private'', p @ ''.pub'' \<mapsto> File 420 ''public''))),
      pw_name = Some ''bob'',
      which = (\<lambda>n. if n = ''sshd'' then Some ''/usr/sbin/sshd'' else None)\<rparr>"

definition env_without_sshd :: env where
  "env_without_sshd = example_env\<lparr>which := (\<lambda>n. None)\<rparr>"

definition example_world :: world where
  "example_world =
     \<lparr>fs = [''fileA'' \<mapsto> File 420 (''keyA'' @ [NL]), ''fileB'' \<mapsto> File 420 (''keyB'' @ [NL]),
            ''/s/tmpssh'' \<mapsto> Dir 448],
      umask = 63, requests = [], drawn = 0, subprocesses = []\<rparr>"

definition world_with_default :: world where
  "world_with_default =
     example_world\<lparr>fs := (fs example_world)(''/h/.ssh/authorized_keys'' \<mapsto> File 384 ''keyD'')\<rparr>"

definition world_with_host_key :: world where
  "world_with_host_key =
     example_world\<lparr>fs := (fs example_world)(''/s/tmpssh/host_ed25519_key'' \<mapsto> File 384 ''private'')\<rparr>"

definition no_sources :: args where
  "no_sources =
     \<lparr>arg_file = None, arg_url = None, arg_github = None, arg_port = None, arg_quiet = False\<rparr>"

definition injected_path :: path where
  "injected_path = ''keys'' @ [NL] @ ''AllowUsers'' @ [TAB] @ ''root''"

section \<open>Auxiliary facts\<close>

lemmas example_defs =
  example_env_def env_without_sshd_def example_world_def world_with_default_def
  world_with_host_key_def no_sources_def toy_digest_def injected_path_def

lemma split_lines_line: "NL \<notin> set l \<Longrightarrow> split_lines (l @ NL # rest) = l # split_lines rest"
  by (induction l) auto

lemma directives_config:
  assumes "NL \<notin> set (str s)" "NL \<notin> set u"
  shows "directives (generate_sshd_config s u) =
    [''AuthorizedKeysFile'' @ [TAB] @ str s, ''AllowUsers'' @ [TAB] @ u,
     ''PubkeyAuthentication'' @ [TAB] @ ''yes'', ''PasswordAuthentication'' @ [TAB] @ ''no'',
     ''PermitRootLogin'' @ [TAB] @ ''no'']"
proof -
  have l1: "NL \<notin> set (''AuthorizedKeysFile'' @ [TAB] @ str s)"
    using assms by (simp add: NL_def TAB_def)
  have l2: "NL \<notin> set (''AllowUsers'' @ [TAB] @ u)"
    using assms by (simp add: NL_def TAB_def)
  have l3: "NL \<notin> set (''PubkeyAuthentication'' @ [TAB] @ ''yes'')"
    by (simp add: NL_def TAB_def)
  have l4: "NL \<notin> set (''PasswordAuthentication'' @ [TAB] @ ''no'')"
    by (simp add: NL_def TAB_def)
  have l5: "NL \<notin> set (''PermitRootLogin'' @ [TAB] @ ''no'')"
    by (simp add: NL_def TAB_def)
  have "generate_sshd_config s u =
      [] @ NL # (''AuthorizedKeysFile'' @ [TAB] @ str s) @ NL # (''AllowUsers'' @ [TAB] @ u) @ NL #
      (''PubkeyAuthentication'' @ [TAB] @ ''yes'') @ NL #
      (''PasswordAuthentication'' @ [TAB] @ ''no'') @ NL #
      (''PermitRootLogin'' @ [TAB] @ ''no'') @ NL # []"
    by (simp add: generate_sshd_config_def)
  then have "split_lines (generate_sshd_config s u) =
      [[], ''AuthorizedKeysFile'' @ [TAB] @ str s, ''AllowUsers'' @ [TAB] @ u,
       ''PubkeyAuthentication'' @ [TAB] @ ''yes'', ''PasswordAuthentication'' @ [TAB] @ ''no'',
       ''PermitRootLogin'' @ [TAB] @ ''no'', []]"
    using split_lines_line [OF l1] split_lines_line [OF l2] split_lines_line [OF l3]
      split_lines_line [OF l4] split_lines_line [OF l5] split_lines_line [of "[]"]
    by simp
  then show ?thesis by (simp add: directives_def)
qed

lemma main_propagates:
  "make_authorized_keys E a w = (Inl e, w1) \<Longrightarrow> main E a w = (Inl e, w1)"
  by (simp add: main_def)

lemma resolve_urls_append:
  "resolve_urls E d (xs @ ys) srcs w =
     (case resolve_urls E d xs srcs w of
        (Inl e, w1) \<Rightarrow> (Inl e, w1)
      | (Inr srcs1, w1) \<Rightarrow> resolve_urls E d ys srcs1 w1)"
  by (induction xs arbitrary: srcs w) (auto split: prod.splits sum.splits)

subsection \<open>Paths\<close>

lemma ancestors_from_length:
  "a \<in> set (ancestors_from acc cs) \<Longrightarrow> length a < length acc + length cs"
  by (induction cs arbitrary: acc) (fastforce split: if_splits)+

lemma ancestors_length: "a \<in> set (ancestors p) \<Longrightarrow> length a < length p"
  using ancestors_from_length [of a "[]" p] by (simp add: ancestors_def)

lemma joinpath_long: "1 < length p \<Longrightarrow> joinpath p q = p @ ''/'' @ q"
  by (auto simp: joinpath_def)

lemma STATE_DIR_long: "1 < length (STATE_DIR E)"
  by (simp add: STATE_DIR_def joinpath_def)

lemma inside_STATE_DIR: "joinpath (STATE_DIR E) q = STATE_DIR E @ ''/'' @ q"
  by (rule joinpath_long [OF STATE_DIR_long])

lemma inside_cache_dir:
  "joinpath (joinpath (STATE_DIR E) ''pubkeys'') q = joinpath (STATE_DIR E) ''pubkeys'' @ ''/'' @ q"
  by (rule joinpath_long) (simp add: inside_STATE_DIR)

subsection \<open>Permission bits\<close>

lemma new_cache_file_mode: "o666 AND NOT o022 = (420 :: mode)"
  by (simp add: o666_def o022_def)

lemma owner_only: "(o700 AND NOT m) AND 63 = (0 :: mode)"
proof -
  have "(o700 AND NOT m) AND 63 = (o700 AND 63) AND NOT m"
    by (simp add: ac_simps)
  also have "o700 AND 63 = (0 :: mode)"
    by (simp add: o700_def)
  finally show ?thesis by simp
qed

subsection \<open>What mkdir changes\<close>

lemma make_parents_frame:
  "make_parents ds w = (r, w1) \<Longrightarrow>
     umask w1 = umask w \<and> requests w1 = requests w \<and> drawn w1 = drawn w \<and>
     subprocesses w1 = subprocesses w \<and>
     (\<forall>q. fs w q \<noteq> None \<longrightarrow> fs w1 q = fs w q) \<and>
     (\<forall>q. fs w1 q \<noteq> fs w q \<longrightarrow> q \<in> set ds)"
proof (induction ds arbitrary: w)
  case Nil
  then show ?case by simp
next
  case (Cons d ds)
  show ?case
  proof (cases "fs w d")
    case None
    with Cons.prems
    have "make_parents ds (w\<lparr>fs := (fs w)(d \<mapsto> Dir (o777 AND NOT (umask w)))\<rparr>) = (r, w1)"
      by simp
    from Cons.IH [OF this] None show ?thesis
      by (auto simp: fun_upd_def split: if_splits)
  next
    case (Some n)
    with Cons.prems Cons.IH [of w] show ?thesis
      by (cases n) auto
  qed
qed

lemma mkdir_frame:
  assumes "mkdir md p w = (r, w1)"
  shows "umask w1 = umask w \<and> requests w1 = requests w \<and> drawn w1 = drawn w \<and>
     subprocesses w1 = subprocesses w \<and>
     (\<forall>q. fs w q \<noteq> None \<longrightarrow> fs w1 q = fs w q) \<and>
     (\<forall>q. fs w1 q \<noteq> fs w q \<longrightarrow> length q \<le> length p)"
proof (cases "fs w p")
  case None
  obtain r0 w0 where mp: "make_parents (ancestors p) w = (r0, w0)"
    by (cases "make_parents (ancestors p) w")
  note fr = make_parents_frame [OF mp]
  have anc: "q \<in> set (ancestors p) \<Longrightarrow> length q \<le> length p" for q
    using ancestors_length [of q p] by simp
  show ?thesis
  proof (cases r0)
    case (Inl e)
    with assms None mp have "w1 = w0" by (simp add: mkdir_def)
    with fr anc show ?thesis by blast
  next
    case (Inr x)
    with assms None mp
    have w1: "w1 = w0\<lparr>fs := (fs w0)(p \<mapsto> Dir (md AND NOT (umask w0)))\<rparr>"
      by (simp add: mkdir_def)
    have "fs w1 q = fs w q" if "fs w q \<noteq> None" for q
      using that fr None w1 by (cases "q = p") auto
    moreover have "length q \<le> length p" if "fs w1 q \<noteq> fs w q" for q
      using that fr anc w1 by (cases "q = p") auto
    ultimately show ?thesis using fr w1 by auto
  qed
next
  case (Some n)
  with assms show ?thesis
    by (cases n) (auto simp: mkdir_def)
qed

lemma mkdir_new:
  assumes "mkdir md p w = (Inr x, w1)" and "fs w p = None"
  shows "fs w1 p = Some (Dir (md AND NOT (umask w)))"
proof -
  obtain r0 w0 where mp: "make_parents (ancestors p) w = (r0, w0)"
    by (cases "make_parents (ancestors p) w")
  with assms have "w1 = w0\<lparr>fs := (fs w0)(p \<mapsto> Dir (md AND NOT (umask w0)))\<rparr>"
    by (cases r0) (auto simp: mkdir_def)
  with make_parents_frame [OF mp] show ?thesis by simp
qed

lemma mkdir_existing: "fs w p = Some (Dir m) \<Longrightarrow> mkdir md p w = (Inr (), w)"
  by (simp add: mkdir_def)

subsection \<open>What a temporary file changes\<close>

lemma mkstemp_inner_frame:
  "mkstemp_inner E n w = (r, w1) \<Longrightarrow>
     umask w1 = umask w \<and> requests w1 = requests w \<and> subprocesses w1 = subprocesses w \<and>
     (case r of
        Inl e \<Rightarrow> fs w1 = fs w
      | Inr p \<Rightarrow> fs w p = None \<and> p \<in> range (candidate_names E) \<and>
                 fs w1 = (fs w)(p \<mapsto> File (o600 AND NOT (umask w)) []))"
proof (induction n arbitrary: w)
  case 0
  then show ?case by auto
next
  case (Suc n)
  show ?case
  proof (cases "fs w (candidate_names E (drawn w)) = None")
    case True
    with Suc.prems show ?thesis by (auto simp: Let_def)
  next
    case False
    with Suc.prems have "mkstemp_inner E n (w\<lparr>drawn := Suc (drawn w)\<rparr>) = (r, w1)"
      by (simp add: Let_def)
    from Suc.IH [OF this] show ?thesis by (cases r) simp_all
  qed
qed

lemma NamedTemporaryFile_frame:
  "NamedTemporaryFile E w = (r, w1) \<Longrightarrow>
     umask w1 = umask w \<and> requests w1 = requests w \<and> subprocesses w1 = subprocesses w \<and>
     (case r of
        Inl e \<Rightarrow> fs w1 = fs w
      | Inr p \<Rightarrow> fs w p = None \<and> p \<in> range (candidate_names E) \<and>
                 fs w1 = (fs w)(p \<mapsto> File (o600 AND NOT (umask w)) []))"
  unfolding NamedTemporaryFile_def by (rule mkstemp_inner_frame)

lemma NamedTemporaryFile_first:
  "fs w (candidate_names E (drawn w)) = None \<Longrightarrow>
     NamedTemporaryFile E w =
       (Inr (candidate_names E (drawn w)),
        w\<lparr>drawn := Suc (drawn w),
          fs := (fs w)(candidate_names E (drawn w) \<mapsto> File (o600 AND NOT (umask w)) [])\<rparr>)"
proof -
  have "TMP_MAX = Suc (TMP_MAX - 1)" by (simp add: TMP_MAX_def)
  then have "NamedTemporaryFile E w = mkstemp_inner E (Suc (TMP_MAX - 1)) w"
    by (simp add: NamedTemporaryFile_def)
  then show "fs w (candidate_names E (drawn w)) = None \<Longrightarrow> ?thesis"
    by (simp add: Let_def)
qed

subsection \<open>What the merge loop changes\<close>

lemma append_bytes_file:
  "fs w t = Some (File m acc) \<Longrightarrow>
     append_bytes t b w = w\<lparr>fs := (fs w)(t \<mapsto> File m (acc @ b))\<rparr>"
  by (simp add: append_bytes_def)

lemma write_all_frame:
  "write_all t files w = (r, w1) \<Longrightarrow> fs w t = Some (File m acc) \<Longrightarrow>
     umask w1 = umask w \<and> requests w1 = requests w \<and> subprocesses w1 = subprocesses w \<and>
     (\<forall>q. q \<noteq> t \<longrightarrow> fs w1 q = fs w q) \<and> (\<exists>b. fs w1 t = Some (File m b))"
proof (induction files arbitrary: w acc)
  case Nil
  then show ?case by auto
next
  case (Cons f files)
  show ?case
  proof (cases "source_read_bytes f w")
    case (Inl e)
    with Cons.prems show ?thesis by auto
  next
    case (Inr b)
    let ?w = "append_bytes t b w"
    have w: "?w = w\<lparr>fs := (fs w)(t \<mapsto> File m (acc @ b))\<rparr>"
      using Cons.prems(2) by (rule append_bytes_file)
    from Cons.prems(1) Inr have "write_all t files ?w = (r, w1)" by simp
    from Cons.IH [OF this, of "acc @ b"] w show ?thesis by simp
  qed
qed

text \<open>Sources that are \<^verbatim>\<open>Path\<close> objects, as the cache files are, are concatenated.\<close>

lemma write_all_concat:
  "fs w t = Some (File m acc) \<Longrightarrow> \<forall>f \<in> set ps. is_file w f \<and> f \<noteq> t \<Longrightarrow>
     write_all t (map PosixPath ps) w =
       (Inr (), w\<lparr>fs := (fs w)(t \<mapsto> File m (acc @ concat (map (contents w) ps)))\<rparr>)"
proof (induction ps arbitrary: w acc)
  case Nil
  then show ?case by (simp add: fun_upd_idem)
next
  case (Cons f ps)
  from Cons.prems(2) obtain mf where f: "fs w f = Some (File mf (contents w f))" and ft: "f \<noteq> t"
    by (auto simp: is_file_def contents_def split: option.splits node.splits)
  let ?w = "w\<lparr>fs := (fs w)(t \<mapsto> File m (acc @ contents w f))\<rparr>"
  have step: "append_bytes t (contents w f) w = ?w"
    using Cons.prems(1) by (rule append_bytes_file)
  have t': "fs ?w t = Some (File m (acc @ contents w f))" by simp
  have files': "\<forall>g \<in> set ps. is_file ?w g \<and> g \<noteq> t"
    using Cons.prems(2) by (auto simp: is_file_def)
  have same: "map (contents ?w) ps = map (contents w) ps"
    using Cons.prems(2) by (auto simp: contents_def)
  have final: "?w\<lparr>fs := (fs ?w)(t \<mapsto>
      File m ((acc @ contents w f) @ concat (map (contents ?w) ps)))\<rparr>
    = w\<lparr>fs := (fs w)(t \<mapsto> File m (acc @ concat (map (contents w) (f # ps))))\<rparr>"
    unfolding same by simp
  have "write_all t (map PosixPath (f # ps)) w = write_all t (map PosixPath ps) ?w"
    using f step by (simp add: source_read_bytes_def read_bytes_def)
  also have "\<dots> = (Inr (), ?w\<lparr>fs := (fs ?w)(t \<mapsto>
      File m ((acc @ contents w f) @ concat (map (contents ?w) ps)))\<rparr>)"
    using t' files' by (rule Cons.IH)
  finally show ?case unfolding final .
qed

text \<open>A source that is a \<^verbatim>\<open>str\<close>, as the values of \<^verbatim>\<open>-f\<close> are, stops the loop.\<close>

lemma write_all_str: "write_all t (Str s # files) w = (Inl AttributeError, w)"
  by (simp add: source_read_bytes_def)

lemma mkstemp_inner_succeeds:
  "i < n \<Longrightarrow> fs w (candidate_names E (drawn w + i)) = None \<Longrightarrow>
     \<exists>p w1. mkstemp_inner E n w = (Inr p, w1)"
proof (induction n arbitrary: w i)
  case 0
  then show ?case by simp
next
  case (Suc n)
  show ?case
  proof (cases "fs w (candidate_names E (drawn w)) = None")
    case True
    then show ?thesis by (simp add: Let_def)
  next
    case False
    with Suc.prems obtain j where j: "i = Suc j" by (cases i) auto
    with Suc.prems have "j < n"
      and "fs (w\<lparr>drawn := Suc (drawn w)\<rparr>)
             (candidate_names E (drawn (w\<lparr>drawn := Suc (drawn w)\<rparr>) + j)) = None"
      by simp_all
    from Suc.IH [OF this] False show ?thesis by (simp add: Let_def)
  qed
qed

lemma merge_files_frame:
  assumes "merge_files E files w = (r, w1)"
  shows "umask w1 = umask w \<and> requests w1 = requests w \<and> subprocesses w1 = subprocesses w \<and>
     (\<forall>q. fs w q \<noteq> None \<longrightarrow> fs w1 q = fs w q) \<and>
     (\<forall>q. fs w1 q \<noteq> fs w q \<longrightarrow> q \<in> range (candidate_names E) \<and> is_file w1 q)"
proof -
  obtain r0 w0 where nt: "NamedTemporaryFile E w = (r0, w0)"
    by (cases "NamedTemporaryFile E w")
  note fr = NamedTemporaryFile_frame [OF nt]
  show ?thesis
  proof (cases r0)
    case (Inl e)
    with assms nt have "w1 = w0" by (simp add: merge_files_def)
    with fr Inl show ?thesis by simp
  next
    case (Inr t)
    with fr have t: "fs w t = None" "t \<in> range (candidate_names E)"
      and w0: "fs w0 = (fs w)(t \<mapsto> File (o600 AND NOT (umask w)) [])"
      by simp_all
    obtain r2 w2 where wa: "write_all t files w0 = (r2, w2)"
      by (cases "write_all t files w0")
    have "fs w0 t = Some (File (o600 AND NOT (umask w)) [])"
      using w0 by simp
    note fr2 = write_all_frame [OF wa this]
    from assms nt Inr wa have "w1 = w2"
      by (cases r2) (simp_all add: merge_files_def)
    have keep: "fs w1 q = fs w q" if "q \<noteq> t" for q
      using that fr2 w0 \<open>w1 = w2\<close> by simp
    have new: "is_file w1 t"
      using fr2 \<open>w1 = w2\<close> by (auto simp: is_file_def)
    have "fs w1 q = fs w q" if "fs w q \<noteq> None" for q
      using that t keep by (cases "q = t") auto
    moreover have "q \<in> range (candidate_names E) \<and> is_file w1 q" if "fs w1 q \<noteq> fs w q" for q
      using that t keep new by (cases "q = t") auto
    ultimately show ?thesis
      using fr fr2 \<open>w1 = w2\<close> by simp
  qed
qed

lemma merge_files_of_paths:
  assumes "\<forall>p \<in> set ps. is_file w p"
    and "i < TMP_MAX" and "\<not> exists w (candidate_names E (drawn w + i))"
  shows "\<exists>tmp. fst (merge_files E (map PosixPath ps) w) = Inr tmp \<and> \<not> exists w tmp \<and>
           fs (snd (merge_files E (map PosixPath ps) w)) =
             (fs w)(tmp \<mapsto> File (o600 AND NOT (umask w)) (concat (map (contents w) ps)))"
proof -
  from assms(2,3) obtain tmp w2 where nt: "NamedTemporaryFile E w = (Inr tmp, w2)"
    unfolding NamedTemporaryFile_def exists_def
    using mkstemp_inner_succeeds [of i TMP_MAX w E] by auto
  from NamedTemporaryFile_frame [OF nt]
  have fresh: "fs w tmp = None"
    and w2: "fs w2 = (fs w)(tmp \<mapsto> File (o600 AND NOT (umask w)) [])"
    by simp_all
  have t: "fs w2 tmp = Some (File (o600 AND NOT (umask w)) [])"
    using w2 by simp
  have ps2: "\<forall>f \<in> set ps. is_file w2 f \<and> f \<noteq> tmp"
    using assms(1) fresh w2 by (auto simp: is_file_def)
  have same: "map (contents w2) ps = map (contents w) ps"
    using ps2 w2 by (auto simp: contents_def)
  have "write_all tmp (map PosixPath ps) w2 =
      (Inr (), w2\<lparr>fs := (fs w2)(tmp \<mapsto>
         File (o600 AND NOT (umask w)) ([] @ concat (map (contents w2) ps)))\<rparr>)"
    using t ps2 by (rule write_all_concat)
  then have "merge_files E (map PosixPath ps) w =
      (Inr tmp, w2\<lparr>fs := (fs w2)(tmp \<mapsto>
         File (o600 AND NOT (umask w)) (concat (map (contents w) ps)))\<rparr>)"
    using nt by (simp add: merge_files_def same)
  then show ?thesis
    using fresh w2 by (simp add: exists_def)
qed

lemma mkdir_is_dir:
  assumes "mkdir md p w = (Inr x, w1)"
  shows "is_dir w1 p"
proof (cases "fs w p")
  case None
  obtain r0 w0 where mp: "make_parents (ancestors p) w = (r0, w0)"
    by (cases "make_parents (ancestors p) w")
  with assms None have "w1 = w0\<lparr>fs := (fs w0)(p \<mapsto> Dir (md AND NOT (umask w0)))\<rparr>"
    by (cases r0) (auto simp: mkdir_def)
  then show ?thesis by (simp add: is_dir_def)
next
  case (Some n)
  with assms show ?thesis
    by (cases n) (auto simp: mkdir_def is_dir_def)
qed

subsection \<open>What resolving URLs changes\<close>

lemma resolve_url_frame:
  assumes "resolve_url E d u w = (r, w1)"
  shows "umask w1 = umask w \<and> drawn w1 = drawn w \<and> subprocesses w1 = subprocesses w \<and>
     (\<forall>q. fs w q \<noteq> None \<longrightarrow> fs w1 q = fs w q) \<and>
     (\<forall>q. fs w1 q \<noteq> fs w q \<longrightarrow>
        q = joinpath d (sha3_256_hexdigest E u) \<and>
        (\<exists>b. fs w1 q = Some (File (o666 AND NOT (umask w)) b))) \<and>
     (\<forall>p. r = Inr p \<longrightarrow> p = joinpath d (sha3_256_hexdigest E u) \<and> exists w1 p)"
  using assms
  by (auto simp: resolve_url_def Let_def get_and_save_url_def write_text_def exists_def
      do_get_def split: if_splits prod.splits sum.splits option.splits node.splits
      reply.splits)

lemma resolve_urls_frame:
  "resolve_urls E d us srcs w = (r, w1) \<Longrightarrow>
     umask w1 = umask w \<and> drawn w1 = drawn w \<and> subprocesses w1 = subprocesses w \<and>
     (\<forall>q. fs w q \<noteq> None \<longrightarrow> fs w1 q = fs w q) \<and>
     (\<forall>q. fs w1 q \<noteq> fs w q \<longrightarrow>
        q \<in> (\<lambda>u. joinpath d (sha3_256_hexdigest E u)) ` set us \<and>
        (\<exists>b. fs w1 q = Some (File (o666 AND NOT (umask w)) b))) \<and>
     (\<forall>s. r = Inr s \<longrightarrow>
        s = srcs @ map (\<lambda>u. PosixPath (joinpath d (sha3_256_hexdigest E u))) us \<and>
        (\<forall>u \<in> set us. exists w1 (joinpath d (sha3_256_hexdigest E u))))"
proof (induction us arbitrary: srcs w)
  case Nil
  then show ?case by auto
next
  case (Cons u us)
  obtain r0 w0 where ru: "resolve_url E d u w = (r0, w0)"
    by (cases "resolve_url E d u w")
  note f0 = resolve_url_frame [OF ru]
  show ?case
  proof (cases r0)
    case (Inl e)
    with Cons.prems ru have "r = Inl e" "w1 = w0" by simp_all
    with f0 show ?thesis by auto
  next
    case (Inr p)
    with Cons.prems ru have rec: "resolve_urls E d us (srcs @ [PosixPath p]) w0 = (r, w1)"
      by simp
    note f1 = Cons.IH [OF rec]
    from f0 Inr have p: "p = joinpath d (sha3_256_hexdigest E u)" "exists w0 p"
      by blast+
    have keep: "fs w1 q = fs w q" if "fs w q \<noteq> None" for q
    proof -
      from that f0 have "fs w0 q = fs w q" by blast
      with that f1 show ?thesis by auto
    qed
    have changed: "q \<in> (\<lambda>u. joinpath d (sha3_256_hexdigest E u)) ` set (u # us) \<and>
        (\<exists>b. fs w1 q = Some (File (o666 AND NOT (umask w)) b))" if "fs w1 q \<noteq> fs w q" for q
    proof (cases "fs w0 q = fs w q")
      case True
      with that have "fs w1 q \<noteq> fs w0 q" by simp
      with f1 f0 show ?thesis by auto
    next
      case False
      with f0 have q: "q = joinpath d (sha3_256_hexdigest E u)"
        and b: "\<exists>b. fs w0 q = Some (File (o666 AND NOT (umask w)) b)"
        by blast+
      from b f1 have "fs w1 q = fs w0 q" by auto
      with q b show ?thesis by auto
    qed
    have res: "s = srcs @ map (\<lambda>u. PosixPath (joinpath d (sha3_256_hexdigest E u))) (u # us) \<and>
        (\<forall>v \<in> set (u # us). exists w1 (joinpath d (sha3_256_hexdigest E v)))" if "r = Inr s" for s
    proof -
      from that f1 have s: "s = (srcs @ [PosixPath p]) @ map (\<lambda>u. PosixPath (joinpath d (sha3_256_hexdigest E u))) us"
        and ex: "\<forall>v \<in> set us. exists w1 (joinpath d (sha3_256_hexdigest E v))"
        by blast+
      from p f1 have "exists w1 p" by (auto simp: exists_def)
      with s ex p show ?thesis by simp
    qed
    from f0 f1 keep changed res show ?thesis by simp
  qed
qed

section \<open>The server configuration (C2)\<close>

text \<open>
  C2, as stated: for every authorized-keys path and user name the configuration has
  exactly one allowed-user directive, naming that user, and references the
  authorized-keys file by absolute path.  The generator pastes both strings into the
  text as they are: a relative path that carries a line of its own yields a second
  allowed-user directive and a reference that is not absolute.
\<close>

theorem generate_sshd_config_injection_counterexample:
  "values_of ''AllowUsers'' (generate_sshd_config (Str injected_path) ''bob'') = [''root'', ''bob'']
   \<and> values_of ''AuthorizedKeysFile'' (generate_sshd_config (Str injected_path) ''bob'') = [''keys'']
   \<and> \<not> isabs ''keys''"
  by (simp add: values_of_def directives_def generate_sshd_config_def injected_path_def
      str_def isabs_def NL_def TAB_def)

text \<open>
  C2, amended: for every authorized-keys path and user name without a newline, the
  configuration consists of exactly five directives: the authorized-keys file as the
  path was given (so absolute when the given path is), one allowed user, the given
  name, public-key authentication on, password authentication off and root login off.
  The number of key sources is no input of the generator.
\<close>

theorem generate_sshd_config_directives:
  assumes "NL \<notin> set (str s)" and "NL \<notin> set u"
  shows "directives (generate_sshd_config s u) =
           [''AuthorizedKeysFile'' @ [TAB] @ str s, ''AllowUsers'' @ [TAB] @ u,
            ''PubkeyAuthentication'' @ [TAB] @ ''yes'',
            ''PasswordAuthentication'' @ [TAB] @ ''no'',
            ''PermitRootLogin'' @ [TAB] @ ''no'']
         \<and> values_of ''AllowUsers'' (generate_sshd_config s u) = [u]
         \<and> values_of ''PubkeyAuthentication'' (generate_sshd_config s u) = [''yes'']
         \<and> values_of ''PasswordAuthentication'' (generate_sshd_config s u) = [''no'']
         \<and> values_of ''PermitRootLogin'' (generate_sshd_config s u) = [''no'']
         \<and> values_of ''AuthorizedKeysFile'' (generate_sshd_config s u) = [str s]
         \<and> (isabs (str s) \<longrightarrow>
               list_all isabs (values_of ''AuthorizedKeysFile'' (generate_sshd_config s u)))"
  by (simp add: values_of_def directives_config [OF assms])

theorem generate_sshd_config_directives_witness:
  "NL \<notin> set (str (Str ''/h/keys'')) \<and> NL \<notin> set ''bob'' \<and> isabs (str (Str ''/h/keys''))
   \<and> values_of ''AllowUsers'' (generate_sshd_config (Str ''/h/keys'') ''bob'') = [''bob'']
   \<and> values_of ''AuthorizedKeysFile'' (generate_sshd_config (Str ''/h/keys'') ''bob'')
       = [''/h/keys'']
   \<and> list_all isabs
         (values_of ''AuthorizedKeysFile'' (generate_sshd_config (Str ''/h/keys'') ''bob''))"
  using generate_sshd_config_directives [of "Str ''/h/keys''" "''bob''"]
  by (simp add: NL_def isabs_def str_def)

section \<open>The fetcher (C7)\<close>

text \<open>
  C7, as stated: the fetcher fails whenever the server returns a non-success status.
  \<^verbatim>\<open>raise_for_status\<close> raises for 4xx and 5xx only: a final status 300 is no success
  status, and the body is returned.
\<close>

theorem do_get_status_300_counterexample:
  "fst (do_get example_env ''https://a/choices'' example_world) = Inr ''choices''
   \<and> \<not> success_status 300"
  by (simp add: do_get_def example_defs raise_for_status_def success_status_def)

text \<open>
  C7, amended: for every URL the fetcher makes one call of \<^verbatim>\<open>requests.get\<close>; it
  returns the body unless the request gets no response or the status is 4xx or 5xx,
  and then it fails; and a fetch that fails while the URLs of a run are resolved ends
  \<^verbatim>\<open>main\<close> with that error.
\<close>

theorem do_get_contract:
  "requests (snd (do_get E u w)) = requests w @ [u]
   \<and> fst (do_get E u w) =
       (case remote E (length (requests w)) u of
          NoResponse \<Rightarrow> Inl RequestException
        | Response status body \<Rightarrow>
            if 400 \<le> status \<and> status < 600 then Inl (HTTPError status) else Inr body)
   \<and> (urls_of a = us1 @ u # us2
        \<and> ensure_cache_dir E w0 = (Inr d, w1)
        \<and> resolve_urls E d us1 (map Str (or_empty (arg_file a))) (w1\<lparr>umask := o022\<rparr>)
            = (Inr srcs, w)
        \<and> \<not> exists w (joinpath d (sha3_256_hexdigest E u))
        \<and> do_get E u w = (Inl e, w2)
      \<longrightarrow> main E a w0 = (Inl e, w2))"
proof (intro conjI impI)
  show "requests (snd (do_get E u w)) = requests w @ [u]"
    by (simp add: do_get_def Let_def split: reply.splits)
  show "fst (do_get E u w) =
       (case remote E (length (requests w)) u of
          NoResponse \<Rightarrow> Inl RequestException
        | Response status body \<Rightarrow>
            if 400 \<le> status \<and> status < 600 then Inl (HTTPError status) else Inr body)"
    by (auto simp: do_get_def Let_def raise_for_status_def split: reply.splits)
next
  assume h: "urls_of a = us1 @ u # us2
        \<and> ensure_cache_dir E w0 = (Inr d, w1)
        \<and> resolve_urls E d us1 (map Str (or_empty (arg_file a))) (w1\<lparr>umask := o022\<rparr>)
            = (Inr srcs, w)
        \<and> \<not> exists w (joinpath d (sha3_256_hexdigest E u))
        \<and> do_get E u w = (Inl e, w2)"
  then have "resolve_url E d u w = (Inl e, w2)"
    by (simp add: resolve_url_def get_and_save_url_def)
  then have "resolve_urls E d (us1 @ u # us2) (map Str (or_empty (arg_file a)))
      (w1\<lparr>umask := o022\<rparr>) = (Inl e, w2)"
    using h by (simp add: resolve_urls_append)
  then have "collect_sources E a w0 = (Inl e, w2)"
    using h by (simp add: collect_sources_def Let_def)
  then have "make_authorized_keys E a w0 = (Inl e, w2)"
    by (simp add: make_authorized_keys_def)
  then show "main E a w0 = (Inl e, w2)"
    by (rule main_propagates)
qed

theorem do_get_contract_witness:
  "requests (snd (do_get example_env ''https://a/gone''
       ((snd (ensure_cache_dir example_env example_world))\<lparr>umask := o022\<rparr>))) = [''https://a/gone'']
   \<and> fst (do_get example_env ''https://a/gone''
       ((snd (ensure_cache_dir example_env example_world))\<lparr>umask := o022\<rparr>)) = Inl (HTTPError 404)
   \<and> urls_of (no_sources\<lparr>arg_url := Some [''https://a/gone'']\<rparr>) = [] @ ''https://a/gone'' # []
   \<and> fst (ensure_cache_dir example_env example_world) = Inr ''/s/tmpssh/pubkeys''
   \<and> \<not> exists ((snd (ensure_cache_dir example_env example_world))\<lparr>umask := o022\<rparr>)
         (joinpath ''/s/tmpssh/pubkeys'' (sha3_256_hexdigest example_env ''https://a/gone''))
   \<and> fst (main example_env (no_sources\<lparr>arg_url := Some [''https://a/gone'']\<rparr>) example_world)
       = Inl (HTTPError 404)"
  using do_get_contract [of example_env "''https://a/gone''"
      "(snd (ensure_cache_dir example_env example_world))\<lparr>umask := o022\<rparr>"
      "no_sources\<lparr>arg_url := Some [''https://a/gone'']\<rparr>" "[]" "[]"
      example_world "''/s/tmpssh/pubkeys''" "snd (ensure_cache_dir example_env example_world)"
      "[]" "HTTPError 404"
      "snd (do_get example_env ''https://a/gone''
         ((snd (ensure_cache_dir example_env example_world))\<lparr>umask := o022\<rparr>))"]
  by (simp add: example_defs do_get_def raise_for_status_def urls_of_def or_empty_def
      ensure_cache_dir_def STATE_DIR_def joinpath_def mkdir_def ancestors_def exists_def
      GITHUB_KEYS_ENDPOINT_def Let_def)

section \<open>No key source (C4)\<close>

text \<open>
  C4: with no file, no URL and no GitHub user on the command line,
  \<^verbatim>\<open>make_authorized_keys\<close> returns \<^verbatim>\<open>~/.ssh/authorized_keys\<close> and leaves the world
  as it was when that path exists; otherwise it ends in the exit of \<^verbatim>\<open>parser.error\<close>
  (status 2, the usage error), and so does \<^verbatim>\<open>main\<close>, with nothing written, no
  subprocess run and nothing executed.
\<close>

theorem no_sources_default_or_usage_error:
  assumes "or_empty (arg_file a) = []" and "or_empty (arg_url a) = []"
    and "or_empty (arg_github a) = []"
  shows "(exists w (joinpath (home E) ''.ssh/authorized_keys'') \<longrightarrow>
            make_authorized_keys E a w =
              (Inr (PosixPath (joinpath (home E) ''.ssh/authorized_keys'')), w))
       \<and> (\<not> exists w (joinpath (home E) ''.ssh/authorized_keys'') \<longrightarrow>
            make_authorized_keys E a w =
              (Inl (SystemExit 2
                 ''No key sources given, and ~/.ssh/authorized_keys does not exist.''), w)
            \<and> main E a w =
              (Inl (SystemExit 2
                 ''No key sources given, and ~/.ssh/authorized_keys does not exist.''), w))"
  using assms
  by (simp add: main_def make_authorized_keys_def collect_sources_def urls_of_def)

theorem no_sources_default_or_usage_error_witness:
  "or_empty (arg_file no_sources) = [] \<and> or_empty (arg_url no_sources) = []
   \<and> or_empty (arg_github no_sources) = []
   \<and> exists world_with_default ''/h/.ssh/authorized_keys''
   \<and> make_authorized_keys example_env no_sources world_with_default
       = (Inr (PosixPath ''/h/.ssh/authorized_keys''), world_with_default)
   \<and> \<not> exists example_world ''/h/.ssh/authorized_keys''
   \<and> main example_env no_sources example_world =
       (Inl (SystemExit 2
          ''No key sources given, and ~/.ssh/authorized_keys does not exist.''), example_world)"
  using no_sources_default_or_usage_error [of no_sources world_with_default example_env]
    no_sources_default_or_usage_error [of no_sources example_world example_env]
  by (simp add: example_defs or_empty_def exists_def joinpath_def)

section \<open>A single key source (C6)\<close>

text \<open>
  C6: when the list of resolved sources has exactly one element,
  \<^verbatim>\<open>make_authorized_keys\<close> returns that element and the world as it is after the
  sources were resolved: nothing is copied, nothing is merged.  With one file and no
  URL the element is the string given to \<^verbatim>\<open>-f\<close> and the world is the one the run
  started in.
\<close>

theorem single_source_returned_unchanged:
  "(collect_sources E a w = (Inr [s], w1) \<longrightarrow> make_authorized_keys E a w = (Inr s, w1))
   \<and> (or_empty (arg_file a) = [f] \<and> urls_of a = [] \<longrightarrow>
        make_authorized_keys E a w = (Inr (Str f), w))"
  by (simp add: make_authorized_keys_def collect_sources_def)

theorem single_source_returned_unchanged_witness:
  "collect_sources example_env (no_sources\<lparr>arg_file := Some [''fileA'']\<rparr>) example_world
     = (Inr [Str ''fileA''], example_world)
   \<and> or_empty (arg_file (no_sources\<lparr>arg_file := Some [''fileA'']\<rparr>)) = [''fileA'']
   \<and> urls_of (no_sources\<lparr>arg_file := Some [''fileA'']\<rparr>) = []
   \<and> make_authorized_keys example_env (no_sources\<lparr>arg_file := Some [''fileA'']\<rparr>) example_world
     = (Inr (Str ''fileA''), example_world)"
  using single_source_returned_unchanged [of example_env
      "no_sources\<lparr>arg_file := Some [''fileA'']\<rparr>" example_world "Str ''fileA''" example_world
      "''fileA''"]
  by (simp add: collect_sources_def urls_of_def or_empty_def no_sources_def)

section \<open>The key cache (C3)\<close>

text \<open>
  C3: the cache file of a URL is the cache directory joined with the digest of the URL
  string, a function of the URL alone; the first resolution makes at most one request;
  and once a resolution has succeeded, resolving the same URL again, in any world
  where that cache file still exists, returns the same path and changes nothing, so
  no request is made.  (SHA3-256 is a parameter of the model: what is proved holds
  for every digest function.)
\<close>

theorem resolve_url_cached:
  assumes "resolve_url E d u w = (Inr p, w1)"
  shows "p = joinpath d (sha3_256_hexdigest E u)
       \<and> (requests w1 = requests w \<or> requests w1 = requests w @ [u])
       \<and> resolve_url E d u w1 = (Inr p, w1)
       \<and> requests (snd (resolve_url E d u w1)) = requests w1
       \<and> (\<forall>w2. exists w2 p \<longrightarrow> resolve_url E d u w2 = (Inr p, w2))"
  using assms
  by (auto simp: resolve_url_def Let_def get_and_save_url_def write_text_def exists_def
      do_get_def split: if_splits prod.splits sum.splits option.splits node.splits
      reply.splits)

theorem resolve_url_cached_witness:
  "fst (resolve_url example_env ''/s/tmpssh/pubkeys'' ''https://github.com/alice.keys''
          example_world)
     = Inr (joinpath ''/s/tmpssh/pubkeys'' (toy_digest ''https://github.com/alice.keys''))
   \<and> requests (snd (resolve_url example_env ''/s/tmpssh/pubkeys''
          ''https://github.com/alice.keys'' example_world)) = [''https://github.com/alice.keys'']
   \<and> resolve_url example_env ''/s/tmpssh/pubkeys'' ''https://github.com/alice.keys''
       (snd (resolve_url example_env ''/s/tmpssh/pubkeys'' ''https://github.com/alice.keys''
          example_world))
     = (Inr (joinpath ''/s/tmpssh/pubkeys'' (toy_digest ''https://github.com/alice.keys'')),
        snd (resolve_url example_env ''/s/tmpssh/pubkeys'' ''https://github.com/alice.keys''
          example_world))"
  using resolve_url_cached [of example_env "''/s/tmpssh/pubkeys''"
      "''https://github.com/alice.keys''" example_world
      "joinpath ''/s/tmpssh/pubkeys'' (toy_digest ''https://github.com/alice.keys'')"
      "snd (resolve_url example_env ''/s/tmpssh/pubkeys'' ''https://github.com/alice.keys''
          example_world)"]
  by (simp add: resolve_url_def Let_def get_and_save_url_def write_text_def exists_def
      do_get_def raise_for_status_def example_defs joinpath_def)

section \<open>Merging two or more sources (C1)\<close>

text \<open>
  C1 asks that two or more sources are merged into a new temporary file that holds
  their bytes in the order given.  \<^verbatim>\<open>merge_files\<close> is written for a list of
  \<^verbatim>\<open>Path\<close> objects (its annotation says so), and for those it does what C1 says
  (\<open>merge_files_of_paths\<close>: the cache files of URLs are such objects).  The values
  of \<^verbatim>\<open>-f\<close> are strings, though, and \<^verbatim>\<open>file.read_bytes()\<close> raises on the first
  of them.  With the two files of the specification's scenario, both readable, the
  run ends in \<^verbatim>\<open>AttributeError\<close> and leaves an empty temporary file behind.
\<close>

theorem merge_of_file_arguments_raises:
  "is_file example_world ''fileA'' \<and> contents example_world ''fileA'' = ''keyA'' @ [NL]
   \<and> is_file example_world ''fileB'' \<and> contents example_world ''fileB'' = ''keyB'' @ [NL]
   \<and> collect_sources example_env (no_sources\<lparr>arg_file := Some [''fileA'', ''fileB'']\<rparr>)
        example_world = (Inr [Str ''fileA'', Str ''fileB''], example_world)
   \<and> fst (make_authorized_keys example_env
            (no_sources\<lparr>arg_file := Some [''fileA'', ''fileB'']\<rparr>) example_world)
       = Inl AttributeError
   \<and> fs (snd (make_authorized_keys example_env
            (no_sources\<lparr>arg_file := Some [''fileA'', ''fileB'']\<rparr>) example_world)) ''/tmp/tmp''
       = Some (File 384 [])
   \<and> fst (main example_env (no_sources\<lparr>arg_file := Some [''fileA'', ''fileB'']\<rparr>) example_world)
       = Inl AttributeError"
  by (simp add: collect_sources_def urls_of_def or_empty_def example_defs is_file_def
      contents_def main_def make_authorized_keys_def merge_files_def NamedTemporaryFile_first
      source_read_bytes_def o600_def)

section \<open>A run without remote sources (C9)\<close>

text \<open>
  C9: with no URL and no GitHub user on the command line, \<^verbatim>\<open>make_authorized_keys\<close>
  makes no request, leaves the umask alone and runs no subprocess, whether it returns
  a path or raises; every path that
  existed keeps its node, no directory appears, and a path whose node changed is a
  new regular file under one of the names of \<^verbatim>\<open>tempfile\<close>.  So the cache directory
  \<^verbatim>\<open>STATE_DIR/pubkeys\<close> is a directory after the call exactly if it was one before,
  and is unchanged if it existed.
\<close>

theorem local_sources_leave_cache_alone:
  assumes "or_empty (arg_url a) = []" and "or_empty (arg_github a) = []"
  shows "requests (snd (make_authorized_keys E a w)) = requests w
       \<and> umask (snd (make_authorized_keys E a w)) = umask w
       \<and> subprocesses (snd (make_authorized_keys E a w)) = subprocesses w
       \<and> (\<forall>p. exists w p \<longrightarrow> fs (snd (make_authorized_keys E a w)) p = fs w p)
       \<and> (\<forall>p. is_dir (snd (make_authorized_keys E a w)) p \<longrightarrow> is_dir w p)
       \<and> (\<forall>p. fs (snd (make_authorized_keys E a w)) p \<noteq> fs w p \<longrightarrow>
              p \<in> range (candidate_names E) \<and> \<not> exists w p
              \<and> is_file (snd (make_authorized_keys E a w)) p)
       \<and> is_dir (snd (make_authorized_keys E a w)) (joinpath (STATE_DIR E) ''pubkeys'')
           = is_dir w (joinpath (STATE_DIR E) ''pubkeys'')"
proof -
  let ?w' = "snd (make_authorized_keys E a w)"
  have cs: "collect_sources E a w = (Inr (map Str (or_empty (arg_file a))), w)"
    using assms by (simp add: collect_sources_def urls_of_def)
  have frame: "umask ?w' = umask w \<and> requests ?w' = requests w
      \<and> subprocesses ?w' = subprocesses w
      \<and> (\<forall>q. fs w q \<noteq> None \<longrightarrow> fs ?w' q = fs w q)
      \<and> (\<forall>q. fs ?w' q \<noteq> fs w q \<longrightarrow> q \<in> range (candidate_names E) \<and> is_file ?w' q)"
  proof (cases "length (or_empty (arg_file a)) < 2")
    case True
    then have "length (or_empty (arg_file a)) = 0 \<or> length (or_empty (arg_file a)) = 1"
      by arith
    then have "?w' = w"
      using cs by (auto simp: make_authorized_keys_def Let_def)
    then show ?thesis by simp
  next
    case False
    obtain r2 w2 where mf: "merge_files E (map Str (or_empty (arg_file a))) w = (r2, w2)"
      by (cases "merge_files E (map Str (or_empty (arg_file a))) w")
    with False cs have "?w' = w2"
      by (cases r2) (auto simp: make_authorized_keys_def Let_def)
    with mf have "merge_files E (map Str (or_empty (arg_file a))) w = (r2, ?w')"
      by simp
    then show ?thesis by (rule merge_files_frame)
  qed
  have dirs: "is_dir ?w' p \<longrightarrow> is_dir w p" for p
  proof (cases "fs ?w' p = fs w p")
    case True
    then show ?thesis by (simp add: is_dir_def)
  next
    case False
    with frame have "is_file ?w' p" by blast
    then show ?thesis
      by (auto simp: is_dir_def is_file_def split: option.splits node.splits)
  qed
  have "is_dir w p \<longrightarrow> is_dir ?w' p" for p
    using frame by (auto simp: is_dir_def split: option.splits node.splits)
  with dirs have "is_dir ?w' p = is_dir w p" for p by blast
  with frame dirs show ?thesis
    by (auto simp: exists_def)
qed

theorem local_sources_leave_cache_alone_witness:
  "or_empty (arg_url (no_sources\<lparr>arg_file := Some [''fileA'', ''fileB'']\<rparr>)) = []
   \<and> or_empty (arg_github (no_sources\<lparr>arg_file := Some [''fileA'', ''fileB'']\<rparr>)) = []
   \<and> requests (snd (make_authorized_keys example_env
        (no_sources\<lparr>arg_file := Some [''fileA'', ''fileB'']\<rparr>) example_world)) = []
   \<and> exists example_world ''/s/tmpssh''
   \<and> fs (snd (make_authorized_keys example_env
        (no_sources\<lparr>arg_file := Some [''fileA'', ''fileB'']\<rparr>) example_world)) ''/s/tmpssh''
       = Some (Dir 448)
   \<and> \<not> is_dir example_world ''/s/tmpssh/pubkeys''
   \<and> \<not> is_dir (snd (make_authorized_keys example_env
        (no_sources\<lparr>arg_file := Some [''fileA'', ''fileB'']\<rparr>) example_world)) ''/s/tmpssh/pubkeys''"
  using local_sources_leave_cache_alone [of
      "no_sources\<lparr>arg_file := Some [''fileA'', ''fileB'']\<rparr>" example_env example_world]
  by (simp add: or_empty_def example_defs exists_def is_dir_def STATE_DIR_def joinpath_def)

section \<open>The umask while URLs are resolved (C10)\<close>

text \<open>
  C10: when the command line has a URL or a GitHub user and the sources are resolved
  without an error, the umask is afterwards what it was before; every URL has its
  cache file, and a cache file that did not exist before was created under the umask
  0o022, with mode 0o666 and not 0o022, which is 0o644 and has the read bit for others; the
  cache directory is a directory, and when it did not exist before it was made with
  mode 0o700 masked by the umask of the caller, which leaves no bit for group or
  others.
\<close>

theorem umask_during_url_resolution:
  assumes "urls_of a \<noteq> []" and "collect_sources E a w = (Inr srcs, w')"
  shows "umask w' = umask w
       \<and> (\<forall>u \<in> set (urls_of a).
            exists w' (joinpath (joinpath (STATE_DIR E) ''pubkeys'') (sha3_256_hexdigest E u))
            \<and> (\<not> exists w (joinpath (joinpath (STATE_DIR E) ''pubkeys'') (sha3_256_hexdigest E u))
                 \<longrightarrow> (\<exists>b. fs w' (joinpath (joinpath (STATE_DIR E) ''pubkeys'')
                              (sha3_256_hexdigest E u)) = Some (File (o666 AND NOT o022) b))))
       \<and> o666 AND NOT o022 = 420 \<and> (420 :: mode) AND 4 = 4
       \<and> is_dir w' (joinpath (STATE_DIR E) ''pubkeys'')
       \<and> (\<not> exists w (joinpath (STATE_DIR E) ''pubkeys'') \<longrightarrow>
            fs w' (joinpath (STATE_DIR E) ''pubkeys'') = Some (Dir (o700 AND NOT (umask w))))
       \<and> (o700 AND NOT (umask w)) AND 63 = 0"
proof -
  let ?cd = "joinpath (STATE_DIR E) ''pubkeys''"
  let ?cache = "\<lambda>u. joinpath ?cd (sha3_256_hexdigest E u)"
  obtain r1 w1 where md: "mkdir o700 ?cd w = (r1, w1)"
    by (cases "mkdir o700 ?cd w")
  from assms md obtain x where r1: "r1 = Inr x"
    by (cases r1) (auto simp: collect_sources_def ensure_cache_dir_def Let_def)
  note f1 = mkdir_frame [OF md]
  from md r1 have dir1: "is_dir w1 ?cd" by (auto intro: mkdir_is_dir)
  let ?w2 = "w1\<lparr>umask := o022\<rparr>"
  obtain r3 w3
    where rs: "resolve_urls E ?cd (urls_of a) (map Str (or_empty (arg_file a))) ?w2 = (r3, w3)"
    by (cases "resolve_urls E ?cd (urls_of a) (map Str (or_empty (arg_file a))) ?w2")
  from assms md r1 rs have r3: "r3 = Inr srcs" and w': "w' = w3\<lparr>umask := umask w1\<rparr>"
    by (cases r3; simp add: collect_sources_def ensure_cache_dir_def Let_def)+
  note f3 = resolve_urls_frame [OF rs]
  have um: "umask w' = umask w"
    using w' f1 by simp
  have files: "exists w' (?cache u) \<and>
      (\<not> exists w (?cache u) \<longrightarrow> (\<exists>b. fs w' (?cache u) = Some (File (o666 AND NOT o022) b)))"
    if u: "u \<in> set (urls_of a)" for u
  proof -
    from f3 r3 u have ex: "exists w3 (?cache u)" by blast
    have "\<exists>b. fs w3 (?cache u) = Some (File (o666 AND NOT o022) b)" if "\<not> exists w (?cache u)"
    proof -
      have "length ?cd < length (?cache u)"
        by (simp add: inside_cache_dir)
      with f1 have "fs w1 (?cache u) = fs w (?cache u)"
        by (metis not_le)
      with that have "fs ?w2 (?cache u) = None"
        by (simp add: exists_def)
      with ex have "fs w3 (?cache u) \<noteq> fs ?w2 (?cache u)"
        by (simp add: exists_def)
      with f3 show ?thesis by auto
    qed
    with ex w' show ?thesis by (simp add: exists_def)
  qed
  from dir1 have "fs ?w2 ?cd \<noteq> None"
    by (auto simp: is_dir_def split: option.splits)
  with f3 have cd3: "fs w3 ?cd = fs w1 ?cd" by simp
  with dir1 w' have dir: "is_dir w' ?cd"
    by (simp add: is_dir_def)
  have new: "fs w' ?cd = Some (Dir (o700 AND NOT (umask w)))" if "\<not> exists w ?cd"
    using that mkdir_new [of o700 ?cd w x w1] md r1 cd3 w' by (simp add: exists_def)
  have "(420 :: mode) AND 4 = 4" by simp
  with um files dir new show ?thesis
    using new_cache_file_mode owner_only by blast
qed

theorem umask_during_url_resolution_witness:
  "urls_of (no_sources\<lparr>arg_github := Some [''alice'']\<rparr>) = [''https://github.com/alice.keys'']
   \<and> fst (collect_sources example_env (no_sources\<lparr>arg_github := Some [''alice'']\<rparr>) example_world)
       = Inr [PosixPath
           (joinpath ''/s/tmpssh/pubkeys'' (toy_digest ''https://github.com/alice.keys''))]
   \<and> umask (snd (collect_sources example_env (no_sources\<lparr>arg_github := Some [''alice'']\<rparr>)
        example_world)) = umask example_world
   \<and> \<not> exists example_world
         (joinpath ''/s/tmpssh/pubkeys'' (toy_digest ''https://github.com/alice.keys''))
   \<and> fs (snd (collect_sources example_env (no_sources\<lparr>arg_github := Some [''alice'']\<rparr>)
        example_world)) (joinpath ''/s/tmpssh/pubkeys'' (toy_digest ''https://github.com/alice.keys''))
       = Some (File 420 ''keyA'')
   \<and> \<not> exists example_world ''/s/tmpssh/pubkeys''
   \<and> fs (snd (collect_sources example_env (no_sources\<lparr>arg_github := Some [''alice'']\<rparr>)
        example_world)) ''/s/tmpssh/pubkeys'' = Some (Dir 448)"
  using umask_during_url_resolution [of "no_sources\<lparr>arg_github := Some [''alice'']\<rparr>"
      example_env example_world
      "[PosixPath (joinpath ''/s/tmpssh/pubkeys'' (toy_digest ''https://github.com/alice.keys''))]"
      "snd (collect_sources example_env (no_sources\<lparr>arg_github := Some [''alice'']\<rparr>)
         example_world)"]
  by (simp add: example_defs urls_of_def or_empty_def GITHUB_KEYS_ENDPOINT_def
      collect_sources_def ensure_cache_dir_def STATE_DIR_def joinpath_def mkdir_def
      ancestors_def exists_def resolve_url_def get_and_save_url_def do_get_def
      raise_for_status_def write_text_def Let_def o700_def o022_def o666_def o777_def)

section \<open>The host key (C5)\<close>

text \<open>
  C5: when the host key file exists (and the state directory is the directory it lies
  in), \<^verbatim>\<open>ensure_host_key\<close> returns its path and changes nothing: no subprocess runs
  and no file is written.  When it does not exist and the state directory can be made,
  exactly one subprocess is run, \<^verbatim>\<open>ssh-keygen\<close> with an empty passphrase
  (\<^verbatim>\<open>-N ''\<close>), the key type \<^verbatim>\<open>ed25519\<close> and the host key path as output file;
  the path is returned when the program exits with 0, and the call fails otherwise.
  What the program writes is its own business: it is a parameter of the model.
\<close>

theorem ensure_host_key_idempotent:
  "(exists w (joinpath (STATE_DIR E) ''host_ed25519_key'') \<and> is_dir w (STATE_DIR E) \<longrightarrow>
      ensure_host_key E w = (Inr (joinpath (STATE_DIR E) ''host_ed25519_key''), w))
   \<and> (\<not> exists w (joinpath (STATE_DIR E) ''host_ed25519_key'')
        \<and> mkdir o700 (STATE_DIR E) w = (Inr (), w1) \<longrightarrow>
      (let host_key = joinpath (STATE_DIR E) ''host_ed25519_key'';
           argv = [''ssh-keygen'', ''-q'', ''-N'', '''', ''-t'', ''ed25519'', ''-f'', host_key]
       in subprocesses (snd (ensure_host_key E w)) = subprocesses w @ [argv]
          \<and> fst (ensure_host_key E w) =
              (case program E argv (fs w1) of
                 None \<Rightarrow> Inl (FileNotFoundError ''ssh-keygen'')
               | Some (returncode, f) \<Rightarrow>
                   if returncode \<noteq> 0 then Inl (CalledProcessError returncode)
                   else Inr host_key)
          \<and> fs (snd (ensure_host_key E w)) =
              (case program E argv (fs w1) of None \<Rightarrow> fs w1 | Some (returncode, f) \<Rightarrow> f)))"
proof (intro conjI impI)
  assume "exists w (joinpath (STATE_DIR E) ''host_ed25519_key'') \<and> is_dir w (STATE_DIR E)"
  then show "ensure_host_key E w = (Inr (joinpath (STATE_DIR E) ''host_ed25519_key''), w)"
    by (auto simp: ensure_host_key_def mkdir_def is_dir_def split: option.splits node.splits)
next
  let ?hk = "joinpath (STATE_DIR E) ''host_ed25519_key''"
  assume h: "\<not> exists w ?hk \<and> mkdir o700 (STATE_DIR E) w = (Inr (), w1)"
  then have md: "mkdir o700 (STATE_DIR E) w = (Inr (), w1)" by simp
  note fr = mkdir_frame [OF md]
  have "length (STATE_DIR E) < length ?hk"
    by (simp add: inside_STATE_DIR)
  with fr have "fs w1 ?hk = fs w ?hk"
    by (metis not_le)
  with h have absent: "\<not> exists w1 ?hk"
    by (simp add: exists_def)
  from fr have "subprocesses w1 = subprocesses w" by simp
  with md absent
  show "let host_key = ?hk;
            argv = [''ssh-keygen'', ''-q'', ''-N'', '''', ''-t'', ''ed25519'', ''-f'', host_key]
        in subprocesses (snd (ensure_host_key E w)) = subprocesses w @ [argv]
           \<and> fst (ensure_host_key E w) =
               (case program E argv (fs w1) of
                  None \<Rightarrow> Inl (FileNotFoundError ''ssh-keygen'')
                | Some (returncode, f) \<Rightarrow>
                    if returncode \<noteq> 0 then Inl (CalledProcessError returncode)
                    else Inr host_key)
           \<and> fs (snd (ensure_host_key E w)) =
               (case program E argv (fs w1) of None \<Rightarrow> fs w1 | Some (returncode, f) \<Rightarrow> f)"
    by (auto simp: ensure_host_key_def subprocess_run_def Let_def
        split: option.splits prod.splits)
qed

theorem ensure_host_key_idempotent_witness:
  "exists world_with_host_key ''/s/tmpssh/host_ed25519_key''
   \<and> is_dir world_with_host_key ''/s/tmpssh''
   \<and> ensure_host_key example_env world_with_host_key
       = (Inr ''/s/tmpssh/host_ed25519_key'', world_with_host_key)
   \<and> \<not> exists example_world ''/s/tmpssh/host_ed25519_key''
   \<and> mkdir o700 ''/s/tmpssh'' example_world = (Inr (), example_world)
   \<and> subprocesses (snd (ensure_host_key example_env example_world))
       = [[''ssh-keygen'', ''-q'', ''-N'', '''', ''-t'', ''ed25519'', ''-f'',
           ''/s/tmpssh/host_ed25519_key'']]
   \<and> fst (ensure_host_key example_env example_world) = Inr ''/s/tmpssh/host_ed25519_key''
   \<and> contents (snd (ensure_host_key example_env example_world)) ''/s/tmpssh/host_ed25519_key''
       = ''private''"
  using ensure_host_key_idempotent [of world_with_host_key example_env]
    ensure_host_key_idempotent [of example_world example_env example_world]
  by (simp add: example_defs exists_def is_dir_def STATE_DIR_def joinpath_def mkdir_def
      contents_def Let_def)

section \<open>The launcher (C8)\<close>

text \<open>
  C8: once the authorized keys, the user name, the configuration file and the host key
  are there, \<^verbatim>\<open>main\<close> fails when \<^verbatim>\<open>shutil.which\<close> finds no \<^verbatim>\<open>sshd\<close> (the
  \<^verbatim>\<open>TypeError\<close> of \<^verbatim>\<open>os.execv\<close> on \<^verbatim>\<open>None\<close>: nothing is executed); otherwise it
  replaces the process by the program found, with the argument vector made of the
  program, \<^verbatim>\<open>-Dp\<close> (foreground, port), the port (2222 when none was given),
  \<^verbatim>\<open>-f\<close> and the configuration file, \<^verbatim>\<open>-h\<close> and the host key, followed by
  \<^verbatim>\<open>-e\<close> exactly when the quiet flag is not set.
\<close>

theorem main_launches_sshd:
  assumes "make_authorized_keys E a w = (Inr authorized_keys_path, w1)"
    and "get_username E = Inr user"
    and "NamedTemporaryFile E w1 = (Inr sshd_config_file, w2)"
    and "ensure_host_key E
           (append_bytes sshd_config_file (generate_sshd_config authorized_keys_path user) w2)
         = (Inr host_key, w3)"
  shows "main E a w =
           (case which E ''sshd'' of
              None \<Rightarrow> (Inl TypeError, w3)
            | Some sshd \<Rightarrow>
                (Inr (Exec sshd
                   ([Some sshd, Some ''-Dp'',
                     Some (case arg_port a of None \<Rightarrow> ''2222'' | Some s \<Rightarrow> s),
                     Some ''-f'', Some sshd_config_file, Some ''-h'', Some host_key]
                    @ (if arg_quiet a then [] else [Some ''-e'']))), w3))"
  using assms
  by (simp add: main_def execv_def str_port_def Let_def split: option.splits)

theorem main_launches_sshd_witness:
  "make_authorized_keys example_env (no_sources\<lparr>arg_file := Some [''fileA'']\<rparr>) example_world
     = (Inr (Str ''fileA''), example_world)
   \<and> get_username example_env = Inr ''bob''
   \<and> fst (NamedTemporaryFile example_env example_world) = Inr ''/tmp/tmp''
   \<and> fst (ensure_host_key example_env
        (append_bytes ''/tmp/tmp'' (generate_sshd_config (Str ''fileA'') ''bob'')
           (snd (NamedTemporaryFile example_env example_world))))
       = Inr ''/s/tmpssh/host_ed25519_key''
   \<and> fst (main example_env (no_sources\<lparr>arg_file := Some [''fileA'']\<rparr>) example_world)
       = Inr (Exec ''/usr/sbin/sshd''
           [Some ''/usr/sbin/sshd'', Some ''-Dp'', Some ''2222'', Some ''-f'', Some ''/tmp/tmp'',
            Some ''-h'', Some ''/s/tmpssh/host_ed25519_key'', Some ''-e''])
   \<and> fst (main example_env
        (no_sources\<lparr>arg_file := Some [''fileA''], arg_port := Some ''8022'', arg_quiet := True\<rparr>)
        example_world)
       = Inr (Exec ''/usr/sbin/sshd''
           [Some ''/usr/sbin/sshd'', Some ''-Dp'', Some ''8022'', Some ''-f'', Some ''/tmp/tmp'',
            Some ''-h'', Some ''/s/tmpssh/host_ed25519_key''])
   \<and> fst (main env_without_sshd (no_sources\<lparr>arg_file := Some [''fileA'']\<rparr>) example_world)
       = Inl TypeError"
proof -
  let ?a = "no_sources\<lparr>arg_file := Some [''fileA'']\<rparr>"
  let ?q = "no_sources\<lparr>arg_file := Some [''fileA''], arg_port := Some ''8022'', arg_quiet := True\<rparr>"
  have free: "fs example_world (candidate_names example_env (drawn example_world)) = None"
    and free': "fs example_world (candidate_names env_without_sshd (drawn example_world)) = None"
    by (simp_all add: example_defs)
  have mk: "make_authorized_keys E ?a example_world = (Inr (Str ''fileA''), example_world)"
    and mkq: "make_authorized_keys E ?q example_world = (Inr (Str ''fileA''), example_world)" for E
    by (simp_all add: make_authorized_keys_def collect_sources_def urls_of_def or_empty_def
        no_sources_def)
  have user: "get_username example_env = Inr ''bob''" "get_username env_without_sshd = Inr ''bob''"
    by (simp_all add: get_username_def example_defs)
  have tmp: "fst (NamedTemporaryFile example_env example_world) = Inr ''/tmp/tmp''"
    and tmp': "fst (NamedTemporaryFile env_without_sshd example_world) = Inr ''/tmp/tmp''"
    using NamedTemporaryFile_first [OF free] NamedTemporaryFile_first [OF free']
    by (simp_all add: example_defs)
  have key: "fst (ensure_host_key example_env
        (append_bytes ''/tmp/tmp'' (generate_sshd_config (Str ''fileA'') ''bob'')
           (snd (NamedTemporaryFile example_env example_world))))
       = Inr ''/s/tmpssh/host_ed25519_key''"
    and key': "fst (ensure_host_key env_without_sshd
        (append_bytes ''/tmp/tmp'' (generate_sshd_config (Str ''fileA'') ''bob'')
           (snd (NamedTemporaryFile env_without_sshd example_world))))
       = Inr ''/s/tmpssh/host_ed25519_key''"
    unfolding NamedTemporaryFile_first [OF free] NamedTemporaryFile_first [OF free']
    by (simp_all add: example_defs ensure_host_key_def STATE_DIR_def joinpath_def mkdir_def
        append_bytes_def exists_def subprocess_run_def Let_def)
  have found: "which example_env ''sshd'' = Some ''/usr/sbin/sshd''"
    and missing: "which env_without_sshd ''sshd'' = None"
    and args: "arg_port ?a = None" "\<not> arg_quiet ?a" "arg_port ?q = Some ''8022''" "arg_quiet ?q"
    by (simp_all add: example_defs)
  have nt: "NamedTemporaryFile example_env example_world
      = (Inr ''/tmp/tmp'', snd (NamedTemporaryFile example_env example_world))"
    and nt': "NamedTemporaryFile env_without_sshd example_world
      = (Inr ''/tmp/tmp'', snd (NamedTemporaryFile env_without_sshd example_world))"
    using tmp tmp' by (simp_all add: prod_eq_iff)
  have hk: "ensure_host_key example_env
        (append_bytes ''/tmp/tmp'' (generate_sshd_config (Str ''fileA'') ''bob'')
           (snd (NamedTemporaryFile example_env example_world)))
      = (Inr ''/s/tmpssh/host_ed25519_key'', snd (ensure_host_key example_env
        (append_bytes ''/tmp/tmp'' (generate_sshd_config (Str ''fileA'') ''bob'')
           (snd (NamedTemporaryFile example_env example_world)))))"
    and hk': "ensure_host_key env_without_sshd
        (append_bytes ''/tmp/tmp'' (generate_sshd_config (Str ''fileA'') ''bob'')
           (snd (NamedTemporaryFile env_without_sshd example_world)))
      = (Inr ''/s/tmpssh/host_ed25519_key'', snd (ensure_host_key env_without_sshd
        (append_bytes ''/tmp/tmp'' (generate_sshd_config (Str ''fileA'') ''bob'')
           (snd (NamedTemporaryFile env_without_sshd example_world)))))"
    using key key' by (simp_all add: prod_eq_iff)
  show ?thesis
    using main_launches_sshd [OF mk user(1) nt hk] main_launches_sshd [OF mkq user(1) nt hk]
      main_launches_sshd [OF mk user(2) nt' hk']
    by (simp add: mk user tmp key found missing args)
qed

end
